theory Spec2Isabelle
  imports Complex_Main
begin

section \<open>Constants of api.js\<close>

datatype category = Churn | Rework | NewWork | HelpOthers

datatype hunk_type = AddOnly | DeleteOnly | Replace

definition MILLISECONDS_PER_DAY :: real where
  "MILLISECONDS_PER_DAY = 1000 * 60 * 60 * 24"

section \<open>JavaScript values used by the core\<close>

text \<open>
  A JavaScript number is either a numeric value or NaN. The double-precision quotient
  of \<open>calculateDeltaDays\<close> is represented by the exact real quotient; the infinities
  do not arise from time values and are left out. Every comparison with NaN is false.
\<close>

datatype jsnum = Num real | NaN

fun js_le :: "jsnum \<Rightarrow> jsnum \<Rightarrow> bool" where
  "js_le (Num a) (Num b) = (a \<le> b)"
| "js_le _ _ = False"

fun js_gt :: "jsnum \<Rightarrow> jsnum \<Rightarrow> bool" where
  "js_gt (Num a) (Num b) = (a > b)"
| "js_gt _ _ = False"

text \<open>
  A \<open>Date\<close> object holds a time value in milliseconds since the epoch, or is an
  "Invalid Date" whose numeric value is NaN. The constructor \<open>new Date(string)\<close> is a
  builtin of the language, not code of the repository: the functions below take it as
  the parameter \<open>parseDate\<close>.
\<close>

datatype jsdate = Date int | InvalidDate

fun valueOf :: "jsdate \<Rightarrow> jsnum" where
  "valueOf (Date t) = Num (real_of_int t)"
| "valueOf InvalidDate = NaN"

fun js_minus :: "jsnum \<Rightarrow> jsnum \<Rightarrow> jsnum" where
  "js_minus (Num a) (Num b) = Num (a - b)"
| "js_minus _ _ = NaN"

fun js_div :: "jsnum \<Rightarrow> real \<Rightarrow> jsnum" where
  "js_div (Num a) d = Num (a / d)"
| "js_div NaN d = NaN"

text \<open>\<open>x || null\<close> on a string that may be missing: the empty string is falsy.\<close>

fun or_null :: "string option \<Rightarrow> string option" where
  "or_null None = None"
| "or_null (Some s) = (if s = [] then None else Some s)"

section \<open>Blame ranges and classification results\<close>

record author =
  name :: "string option"

record commit =
  oid :: "string option"
  committedDate :: "string option"
  author :: "author option"

text \<open>
  The bounds of a range are integers (\<open>Int!\<close> in the blame query); the commit may be
  missing, and so may every field below it.
\<close>

record blame_range =
  startingLine :: int
  endingLine :: int
  commit :: "commit option"

record classification =
  category :: category
  prevAuthor :: "string option"
  prevCommit :: "string option"
  deltaDays :: "jsnum option"

section \<open>Line classification\<close>

text \<open>
  \<open>extractCommitInfo\<close> returns the triple \<open>{ author, commitOid, date }\<close>. A missing
  commit is replaced by the empty object, whose fields are all missing. The date is
  \<open>None\<close> for \<open>null\<close>, and otherwise the \<open>Date\<close> object built from the string.
\<close>

definition extractCommitInfo ::
  "(string \<Rightarrow> jsdate) \<Rightarrow> blame_range \<Rightarrow> string option \<times> string option \<times> jsdate option" where
  "extractCommitInfo parseDate rng =
     (let c = (case commit rng of
                 None \<Rightarrow> \<lparr>oid = None, committedDate = None, author = None\<rparr>
               | Some c \<Rightarrow> c);
          author = or_null (case commit.author c of None \<Rightarrow> None | Some a \<Rightarrow> name a);
          commitOid = or_null (oid c);
          dateStr = or_null (committedDate c);
          date = (case dateStr of None \<Rightarrow> None | Some s \<Rightarrow> Some (parseDate s))
      in (author, commitOid, date))"

definition calculateDeltaDays :: "jsdate \<Rightarrow> jsdate \<Rightarrow> jsnum" where
  "calculateDeltaDays currentDate previousDate =
     (let deltaMs = js_minus (valueOf currentDate) (valueOf previousDate)
      in js_div deltaMs MILLISECONDS_PER_DAY)"

definition inRange :: "int \<Rightarrow> blame_range \<Rightarrow> bool" where
  "inRange lineNum r = (lineNum \<ge> startingLine r \<and> lineNum \<le> endingLine r)"

definition noEvidence :: classification where
  "noEvidence = \<lparr>category = NewWork, prevAuthor = None, prevCommit = None, deltaDays = None\<rparr>"

text \<open>
  \<open>blameRanges\<close> is \<open>None\<close> when the argument is not an array. The current author is a
  string, compared with \<open>===\<close> against a previous author that is a string or \<open>null\<close>.
\<close>

definition classifyLine ::
  "(string \<Rightarrow> jsdate) \<Rightarrow> int \<Rightarrow> hunk_type \<Rightarrow> blame_range list option \<Rightarrow> string \<Rightarrow> jsdate \<Rightarrow> jsnum
     \<Rightarrow> classification" where
  "classifyLine parseDate lineNum hType blameRanges0 currentAuthor currentDate maxDeltaDays =
     (let blameRanges = (case blameRanges0 of None \<Rightarrow> [] | Some rs \<Rightarrow> rs) in
      if hType = AddOnly then noEvidence
      else if hType = Replace then
        (case find (inRange lineNum) blameRanges of
           None \<Rightarrow> noEvidence
         | Some rng \<Rightarrow>
             (case extractCommitInfo parseDate rng of
                (pAuthor, pCommit, pDate) \<Rightarrow>
                  (case pDate of
                     None \<Rightarrow> \<lparr>category = NewWork, prevAuthor = pAuthor,
                               prevCommit = pCommit, deltaDays = None\<rparr>
                   | Some d \<Rightarrow>
                       (let delta = calculateDeltaDays currentDate d;
                            cat = (if pAuthor = Some currentAuthor
                                   then (if js_le delta maxDeltaDays then Churn else Rework)
                                   else HelpOthers)
                        in \<lparr>category = cat, prevAuthor = pAuthor,
                             prevCommit = pCommit, deltaDays = Some delta\<rparr>))))
      else noEvidence)"

section \<open>Patch parsing\<close>

text \<open>
  Strings are lists of characters, one per code unit below 256. The class \<open>\s\<close> of the
  regular expression in \<open>isBlankLine\<close> holds, in that range, the tab, line feed, vertical
  tab, form feed, carriage return, space and no-break space.
\<close>

definition isSpace :: "char \<Rightarrow> bool" where
  "isSpace c = (c = CHR 0x09 \<or> c = CHR 0x0A \<or> c = CHR 0x0B \<or> c = CHR 0x0C \<or> c = CHR 0x0D
                \<or> c = CHR 0x20 \<or> c = CHR 0xA0)"

definition isBlankLine :: "string \<Rightarrow> bool" where
  "isBlankLine lineContent = list_all isSpace lineContent"

record hunk_line =
  content :: string
  lineNum :: nat

text \<open>
  The in-progress hunk of the parser. Its two buffers are the fields \<open>removedLines\<close> and
  \<open>addedLines\<close> of the source object; they are named \<open>hunkRemoved\<close> and \<open>hunkAdded\<close> here
  because \<open>removedLines\<close> is also a field of the emitted records.
\<close>

record hunk =
  hunkRemoved :: "hunk_line list"
  hunkAdded :: "hunk_line list"
  startNewLine :: nat
  startOldLine :: nat

record added_line =
  line :: string
  number :: nat
  hunkType :: hunk_type
  removedLines :: "hunk_line list"

definition determineHunkType :: "hunk_line list \<Rightarrow> hunk_line list \<Rightarrow> hunk_line list \<Rightarrow> hunk_type" where
  "determineHunkType removed added allAdded =
     (if length removed = 0 \<and> length added > 0 then AddOnly
      else if length removed > 0 \<and> length added = 0 then DeleteOnly
      else if length removed > 0 \<and> length added > 0 then Replace
      else if length allAdded > 0 then AddOnly else DeleteOnly)"

definition createEmptyHunk :: hunk where
  "createEmptyHunk = \<lparr>hunkRemoved = [], hunkAdded = [], startNewLine = 0, startOldLine = 0\<rparr>"

text \<open>
  \<open>finalizeHunk\<close> pushes onto the array of added lines and returns the fresh hunk; the
  model returns both the fresh hunk and the extended array.
\<close>

definition finalizeHunk :: "hunk \<Rightarrow> added_line list \<Rightarrow> hunk \<times> added_line list" where
  "finalizeHunk currentHunk addedLines =
     (if length (hunkAdded currentHunk) = 0 \<and> length (hunkRemoved currentHunk) = 0
      then (createEmptyHunk, addedLines)
      else
        (let nonBlankRemoved = filter (\<lambda>l. \<not> isBlankLine (content l)) (hunkRemoved currentHunk);
             nonBlankAdded = filter (\<lambda>l. \<not> isBlankLine (content l)) (hunkAdded currentHunk);
             ht = determineHunkType nonBlankRemoved nonBlankAdded (hunkAdded currentHunk)
         in (createEmptyHunk,
             addedLines @
             map (\<lambda>added. \<lparr>line = content added, number = lineNum added, hunkType = ht,
                            removedLines = (if ht = Replace then hunkRemoved currentHunk else [])\<rparr>)
                 (hunkAdded currentHunk))))"

subsection \<open>Strings: split, startsWith, the hunk-header pattern\<close>

text \<open>\<open>patch.split("\n")\<close>: the pieces between line feeds; the empty string gives one empty piece.\<close>

fun split_lines :: "string \<Rightarrow> string list" where
  "split_lines [] = [[]]"
| "split_lines (c # cs) =
     (if c = CHR 0x0A then [] # split_lines cs
      else (case split_lines cs of [] \<Rightarrow> [[c]] | l # ls \<Rightarrow> (c # l) # ls))"

definition startsWith :: "string \<Rightarrow> string \<Rightarrow> bool" where
  "startsWith s p = (take (length p) s = p)"

definition isDigit :: "char \<Rightarrow> bool" where
  "isDigit c = (c \<in> set ''0123456789'')"

definition digitVal :: "char \<Rightarrow> nat" where
  "digitVal c = of_char c - 48"

text \<open>
  \<open>parseInt(ds, 10)\<close> on a non-empty string of decimal digits. Line numbers are natural
  numbers here; the numbers of the language agree with them on every integer below
  \<open>2^53\<close>.
\<close>

definition parseInt :: "string \<Rightarrow> nat" where
  "parseInt ds = foldl (\<lambda>n c. 10 * n + digitVal c) 0 ds"

text \<open>The rest of \<open>s\<close> after the literal \<open>p\<close>, when \<open>s\<close> starts with it.\<close>

definition afterLiteral :: "string \<Rightarrow> string \<Rightarrow> string option" where
  "afterLiteral p s = (if startsWith s p then Some (drop (length p) s) else None)"

text \<open>
  The optional group \<open>(?:,\d+)?\<close>: a comma followed by at least one digit is consumed
  with all its digits, anything else is left in place.
\<close>

definition skipCount :: "string \<Rightarrow> string" where
  "skipCount s =
     (case s of
        [] \<Rightarrow> s
      | c # t \<Rightarrow> if c = CHR '','' \<and> takeWhile isDigit t \<noteq> [] then dropWhile isDigit t else s)"

text \<open>
  The pattern \<open>@@ -(\d+)(?:,\d+)? \+(\d+)(?:,(\d+))? @@\<close> matched at the start of \<open>s\<close>,
  returning the first two groups. After a run of digits the pattern continues with a comma
  or a space, so only the longest run of digits can lead to a match, and an optional group
  that can be taken must be taken: the backtracking search of the engine is this
  deterministic scan.
\<close>

definition matchHeaderAt :: "string \<Rightarrow> (string \<times> string) option" where
  "matchHeaderAt s =
     (case afterLiteral ''@@ -'' s of
        None \<Rightarrow> None
      | Some s1 \<Rightarrow>
          (let d1 = takeWhile isDigit s1 in
           if d1 = [] then None
           else (case afterLiteral '' +'' (skipCount (dropWhile isDigit s1)) of
                   None \<Rightarrow> None
                 | Some s2 \<Rightarrow>
                     (let d2 = takeWhile isDigit s2 in
                      if d2 = [] then None
                      else if startsWith (skipCount (dropWhile isDigit s2)) '' @@''
                           then Some (d1, d2) else None))))"

text \<open>\<open>exec\<close> is not anchored: the leftmost position where the pattern matches wins.\<close>

fun matchHeader :: "string \<Rightarrow> (string \<times> string) option" where
  "matchHeader [] = None"
| "matchHeader (c # cs) =
     (case matchHeaderAt (c # cs) of Some m \<Rightarrow> Some m | None \<Rightarrow> matchHeader cs)"

subsection \<open>The parser loop\<close>

record pstate =
  addedLines :: "added_line list"
  newLineNum :: nat
  oldLineNum :: nat
  currentHunk :: hunk

definition initialState :: pstate where
  "initialState = \<lparr>addedLines = [], newLineNum = 0, oldLineNum = 0, currentHunk = createEmptyHunk\<rparr>"

text \<open>
  One iteration of \<open>for (const line of lines)\<close>. The two counters are natural numbers with
  an exact successor; they are the numbers of the code as long as they stay at or below
  \<open>2^53 - 1\<close>, the bound under which the values of emitted numbers are stated below.
\<close>

definition parseLine :: "pstate \<Rightarrow> string \<Rightarrow> pstate" where
  "parseLine st l =
     (if startsWith l ''@@'' then
        (case finalizeHunk (currentHunk st) (addedLines st) of
           (h, out) \<Rightarrow>
             (case matchHeader l of
                Some (m1, m2) \<Rightarrow>
                  \<lparr>addedLines = out, newLineNum = parseInt m2, oldLineNum = parseInt m1,
                   currentHunk = h\<lparr>startOldLine := parseInt m1, startNewLine := parseInt m2\<rparr>\<rparr>
              | None \<Rightarrow>
                  \<lparr>addedLines = out, newLineNum = 0, oldLineNum = 0, currentHunk = h\<rparr>))
      else if startsWith l ''+'' \<and> \<not> startsWith l ''+++'' then
        st\<lparr>currentHunk :=
             (currentHunk st)\<lparr>hunkAdded :=
                hunkAdded (currentHunk st) @ [\<lparr>content = drop 1 l, lineNum = newLineNum st\<rparr>]\<rparr>,
           newLineNum := newLineNum st + 1\<rparr>
      else if startsWith l ''-'' \<and> \<not> startsWith l ''---'' then
        st\<lparr>currentHunk :=
             (currentHunk st)\<lparr>hunkRemoved :=
                hunkRemoved (currentHunk st) @ [\<lparr>content = drop 1 l, lineNum = oldLineNum st\<rparr>]\<rparr>,
           oldLineNum := oldLineNum st + 1\<rparr>
      else if \<not> startsWith l [CHR 0x5C] then
        (let st1 =
               (if length (hunkAdded (currentHunk st)) > 0 \<or> length (hunkRemoved (currentHunk st)) > 0
                then (case finalizeHunk (currentHunk st) (addedLines st) of
                        (h, out) \<Rightarrow> st\<lparr>currentHunk := h, addedLines := out\<rparr>)
                else st)
         in st1\<lparr>newLineNum := newLineNum st1 + 1, oldLineNum := oldLineNum st1 + 1\<rparr>)
      else st)"

definition parseLines :: "pstate \<Rightarrow> string list \<Rightarrow> pstate" where
  "parseLines st ls = foldl parseLine st ls"

definition finish :: "pstate \<Rightarrow> added_line list" where
  "finish st = snd (finalizeHunk (currentHunk st) (addedLines st))"

definition parsePatch :: "string \<Rightarrow> added_line list" where
  "parsePatch patch = finish (parseLines initialState (split_lines patch))"

section \<open>New-file positions\<close>






text \<open>
  The values that the loop of \<open>parsePatch\<close> gives to \<open>newLineNum\<close> at its added lines, by the
  tests of the loop itself. This is the parser seen through its counter, used to prove
  properties of its output.
\<close>

fun parserPositions :: "nat \<Rightarrow> string list \<Rightarrow> nat list" where
  "parserPositions n [] = []"
| "parserPositions n (l # ls) =
     (if startsWith l ''@@'' then
        parserPositions (case matchHeader l of Some (m1, m2) \<Rightarrow> parseInt m2 | None \<Rightarrow> 0) ls
      else if startsWith l ''+'' \<and> \<not> startsWith l ''+++'' then n # parserPositions (n + 1) ls
      else if startsWith l ''-'' \<and> \<not> startsWith l ''---'' then parserPositions n ls
      else if \<not> startsWith l [CHR 0x5C] then parserPositions (n + 1) ls
      else parserPositions n ls)"

text \<open>The numbers already emitted, followed by those waiting in the hunk buffer.\<close>

definition pendingNumbers :: "pstate \<Rightarrow> nat list" where
  "pendingNumbers st = map number (addedLines st) @ map lineNum (hunkAdded (currentHunk st))"

section \<open>Sample inputs\<close>

text \<open>
  A date parser that knows three timestamps, a fully populated blame range, a patch with
  two hunks, a patch whose removed lines begin with two dashes, and four hunks: one that
  removes two blank lines and adds code, one that replaces code by a blank line, one with
  blank lines only, and a replace hunk.
\<close>

definition exampleParseDate :: "string \<Rightarrow> jsdate" where
  "exampleParseDate s =
     (if s = ''2024-11-25T00:00:00Z'' then Date 1732492800000
      else if s = ''2024-11-10T00:00:00Z'' then Date 1731196800000
      else if s = ''2024-01-01T00:00:00Z'' then Date 1704067200000
      else InvalidDate)"

definition exampleRange :: "int \<Rightarrow> int \<Rightarrow> string \<Rightarrow> string \<Rightarrow> string \<Rightarrow> blame_range" where
  "exampleRange lo hi commitId date who =
     \<lparr>startingLine = lo, endingLine = hi,
      commit = Some \<lparr>oid = Some commitId, committedDate = Some date,
                     author = Some \<lparr>name = Some who\<rparr>\<rparr>\<rparr>"


definition sampleHunk :: hunk where
  "sampleHunk = \<lparr>hunkRemoved = [\<lparr>content = [], lineNum = 20\<rparr>, \<lparr>content = ''  '', lineNum = 21\<rparr>],
                 hunkAdded = [\<lparr>content = ''  const newValue = 20;'', lineNum = 22\<rparr>],
                 startNewLine = 20, startOldLine = 20\<rparr>"


definition sampleDeleteHunk :: hunk where
  "sampleDeleteHunk = \<lparr>hunkRemoved = [\<lparr>content = ''old();'', lineNum = 3\<rparr>],
                 hunkAdded = [\<lparr>content = '' '', lineNum = 3\<rparr>],
                 startNewLine = 3, startOldLine = 3\<rparr>"

definition sampleBlankHunk :: hunk where
  "sampleBlankHunk = \<lparr>hunkRemoved = [\<lparr>content = ''  '', lineNum = 10\<rparr>],
                 hunkAdded = [\<lparr>content = [], lineNum = 10\<rparr>],
                 startNewLine = 10, startOldLine = 10\<rparr>"

definition sampleReplaceHunk :: hunk where
  "sampleReplaceHunk = \<lparr>hunkRemoved = [\<lparr>content = ''x'', lineNum = 7\<rparr>],
                 hunkAdded = [\<lparr>content = ''y'', lineNum = 7\<rparr>, \<lparr>content = [], lineNum = 8\<rparr>],
                 startNewLine = 7, startOldLine = 7\<rparr>"

section \<open>Properties of the line classification\<close>

lemma find_first_match:
  "\<forall>q\<in>set pre. \<not> P q \<Longrightarrow> P r \<Longrightarrow> find P (pre @ r # post) = Some r"
  by (induction pre) auto

lemma find_no_match: "\<forall>q\<in>set rs. \<not> P q \<Longrightarrow> find P rs = None"
  by (induction rs) auto

lemma inRange_eq: "inRange n = (\<lambda>r. startingLine r \<le> n \<and> n \<le> endingLine r)"
  by (auto simp: inRange_def fun_eq_iff)

text \<open>
  Claim C1. An added line of a replace hunk whose matched range yields a previous date:
  the reported delta is the computed one; when the previous author is the current author
  (equal strings) the category is Churn if the delta is at most the threshold, also when
  it equals the threshold, and Rework if it is greater; when the previous author is missing
  or a different string the category is Help Others, whatever the delta.
\<close>

theorem classifyLine_same_or_other_author:
  assumes "find (\<lambda>r. startingLine r \<le> n \<and> n \<le> endingLine r) rs = Some r"
    and "extractCommitInfo pd r = (pa, pc, Some d)"
  shows "deltaDays (classifyLine pd n Replace (Some rs) cur now m) = Some (calculateDeltaDays now d)
    \<and> (pa = Some cur \<and> js_le (calculateDeltaDays now d) m
          \<longrightarrow> category (classifyLine pd n Replace (Some rs) cur now m) = Churn)
    \<and> (pa = Some cur \<and> js_gt (calculateDeltaDays now d) m
          \<longrightarrow> category (classifyLine pd n Replace (Some rs) cur now m) = Rework)
    \<and> (pa = Some cur \<and> calculateDeltaDays now d = m \<and> m \<noteq> NaN
          \<longrightarrow> category (classifyLine pd n Replace (Some rs) cur now m) = Churn)
    \<and> (pa \<noteq> Some cur
          \<longrightarrow> category (classifyLine pd n Replace (Some rs) cur now m) = HelpOthers)"
proof -
  have f: "find (inRange n) rs = Some r"
    using assms(1) by (simp add: inRange_eq)
  have gt: "js_gt x y \<Longrightarrow> \<not> js_le x y" for x y
    by (cases x; cases y) auto
  have eq: "x \<noteq> NaN \<Longrightarrow> js_le x x" for x
    by (cases x) auto
  show ?thesis
    using f assms(2) gt eq by (auto simp: classifyLine_def Let_def)
qed

text \<open>
  The theorem at a line last touched 21 days earlier: Churn at threshold 21 for the same
  author, Help Others for a name that differs in case only, Rework at threshold 20.
\<close>

theorem classifyLine_same_or_other_author_witness:
  "category (classifyLine exampleParseDate 12 Replace
       (Some [exampleRange 1 9 ''c0'' ''2024-01-01T00:00:00Z'' ''Bob'',
              exampleRange 10 20 ''c1'' ''2024-11-10T00:00:00Z'' ''Alice''])
       ''Alice'' (Date 1733011200000) (Num 21)) = Churn
   \<and> category (classifyLine exampleParseDate 12 Replace
       (Some [exampleRange 1 9 ''c0'' ''2024-01-01T00:00:00Z'' ''Bob'',
              exampleRange 10 20 ''c1'' ''2024-11-10T00:00:00Z'' ''Alice''])
       ''alice'' (Date 1733011200000) (Num 21)) = HelpOthers
   \<and> category (classifyLine exampleParseDate 12 Replace
       (Some [exampleRange 1 9 ''c0'' ''2024-01-01T00:00:00Z'' ''Bob'',
              exampleRange 10 20 ''c1'' ''2024-11-10T00:00:00Z'' ''Alice''])
       ''Alice'' (Date 1733011200000) (Num 20)) = Rework"
proof -
  let ?rs = "[exampleRange 1 9 ''c0'' ''2024-01-01T00:00:00Z'' ''Bob'',
              exampleRange 10 20 ''c1'' ''2024-11-10T00:00:00Z'' ''Alice'']"
  let ?r = "exampleRange 10 20 ''c1'' ''2024-11-10T00:00:00Z'' ''Alice''"
  have f: "find (\<lambda>r. startingLine r \<le> 12 \<and> 12 \<le> endingLine r) ?rs = Some ?r"
    by (simp add: exampleRange_def)
  have e: "extractCommitInfo exampleParseDate ?r = (Some ''Alice'', Some ''c1'', Some (Date 1731196800000))"
    by (simp add: extractCommitInfo_def exampleRange_def exampleParseDate_def)
  have d: "calculateDeltaDays (Date 1733011200000) (Date 1731196800000) = Num 21"
    by (simp add: calculateDeltaDays_def MILLISECONDS_PER_DAY_def)
  show ?thesis
    using classifyLine_same_or_other_author [OF f e, of "''Alice''" "Date 1733011200000" "Num 21"]
      classifyLine_same_or_other_author [OF f e, of "''alice''" "Date 1733011200000" "Num 21"]
      classifyLine_same_or_other_author [OF f e, of "''Alice''" "Date 1733011200000" "Num 20"]
    by (simp add: d)
qed

text \<open>
  Claim C2. For a replace hunk the ranges are scanned in order and the first one with
  \<open>startingLine \<le> number \<le> endingLine\<close> decides the result, whatever follows it; with no
  such range the result is New Work without evidence; an argument that is not an array
  behaves as the empty array.
\<close>

theorem classifyLine_first_match:
  "((\<forall>q\<in>set pre. \<not> (startingLine q \<le> n \<and> n \<le> endingLine q))
      \<and> startingLine r \<le> n \<and> n \<le> endingLine r
     \<longrightarrow> classifyLine pd n Replace (Some (pre @ r # post)) cur now m
         = classifyLine pd n Replace (Some [r]) cur now m)
   \<and> ((\<forall>q\<in>set rs. \<not> (startingLine q \<le> n \<and> n \<le> endingLine q))
     \<longrightarrow> classifyLine pd n Replace (Some rs) cur now m
         = \<lparr>category = NewWork, prevAuthor = None, prevCommit = None, deltaDays = None\<rparr>)
   \<and> classifyLine pd n Replace None cur now m = classifyLine pd n Replace (Some []) cur now m
   \<and> classifyLine pd n Replace None cur now m
         = \<lparr>category = NewWork, prevAuthor = None, prevCommit = None, deltaDays = None\<rparr>"
proof -
  have a: "classifyLine pd n Replace (Some (pre @ r # post)) cur now m
         = classifyLine pd n Replace (Some [r]) cur now m"
    if "\<forall>q\<in>set pre. \<not> (startingLine q \<le> n \<and> n \<le> endingLine q)"
      and "startingLine r \<le> n \<and> n \<le> endingLine r"
  proof -
    have "find (inRange n) (pre @ r # post) = Some r"
      using that by (intro find_first_match) (auto simp: inRange_def)
    moreover have "find (inRange n) [r] = Some r"
      using that by (simp add: inRange_def)
    ultimately show ?thesis
      by (simp add: classifyLine_def)
  qed
  have b: "classifyLine pd n Replace (Some rs) cur now m
         = \<lparr>category = NewWork, prevAuthor = None, prevCommit = None, deltaDays = None\<rparr>"
    if "\<forall>q\<in>set rs. \<not> (startingLine q \<le> n \<and> n \<le> endingLine q)"
  proof -
    have "find (inRange n) rs = None"
      using that by (intro find_no_match) (auto simp: inRange_def)
    then show ?thesis
      by (simp add: classifyLine_def noEvidence_def)
  qed
  have c: "classifyLine pd n Replace None cur now m = classifyLine pd n Replace (Some []) cur now m"
    by (simp add: classifyLine_def)
  have d: "classifyLine pd n Replace None cur now m
         = \<lparr>category = NewWork, prevAuthor = None, prevCommit = None, deltaDays = None\<rparr>"
    by (simp add: classifyLine_def noEvidence_def)
  show ?thesis
    using a b c d by blast
qed

text \<open>
  The theorem at line 10, the first line of the second range and the last line of the
  third: the second range wins. Line 21 lies in no range.
\<close>

theorem classifyLine_first_match_witness:
  "classifyLine exampleParseDate 10 Replace
      (Some ([exampleRange 1 9 ''c0'' ''2024-01-01T00:00:00Z'' ''Bob'']
             @ exampleRange 10 20 ''c1'' ''2024-11-10T00:00:00Z'' ''Alice''
             # [exampleRange 5 10 ''c2'' ''2024-11-25T00:00:00Z'' ''Carol'']))
      ''Alice'' (Date 1733011200000) (Num 21)
    = \<lparr>category = Churn, prevAuthor = Some ''Alice'', prevCommit = Some ''c1'',
        deltaDays = Some (Num 21)\<rparr>
   \<and> classifyLine exampleParseDate 21 Replace
      (Some [exampleRange 1 9 ''c0'' ''2024-01-01T00:00:00Z'' ''Bob'',
             exampleRange 10 20 ''c1'' ''2024-11-10T00:00:00Z'' ''Alice''])
      ''Alice'' (Date 1733011200000) (Num 21)
    = \<lparr>category = NewWork, prevAuthor = None, prevCommit = None, deltaDays = None\<rparr>"
proof -
  let ?pre = "[exampleRange 1 9 ''c0'' ''2024-01-01T00:00:00Z'' ''Bob'']"
  let ?r = "exampleRange 10 20 ''c1'' ''2024-11-10T00:00:00Z'' ''Alice''"
  let ?post = "[exampleRange 5 10 ''c2'' ''2024-11-25T00:00:00Z'' ''Carol'']"
  let ?rs = "[exampleRange 1 9 ''c0'' ''2024-01-01T00:00:00Z'' ''Bob'',
              exampleRange 10 20 ''c1'' ''2024-11-10T00:00:00Z'' ''Alice'']"
  have one: "classifyLine exampleParseDate 10 Replace (Some [?r])
      ''Alice'' (Date 1733011200000) (Num 21)
    = \<lparr>category = Churn, prevAuthor = Some ''Alice'', prevCommit = Some ''c1'',
        deltaDays = Some (Num 21)\<rparr>"
    by (simp add: classifyLine_def inRange_def exampleRange_def extractCommitInfo_def
        exampleParseDate_def calculateDeltaDays_def MILLISECONDS_PER_DAY_def)
  have h1: "(\<forall>q\<in>set ?pre. \<not> (startingLine q \<le> 10 \<and> 10 \<le> endingLine q))
      \<and> startingLine ?r \<le> 10 \<and> 10 \<le> endingLine ?r"
    by (simp add: exampleRange_def)
  have h2: "\<forall>q\<in>set ?rs. \<not> (startingLine q \<le> 21 \<and> 21 \<le> endingLine q)"
    by (simp add: exampleRange_def)
  have "classifyLine exampleParseDate 10 Replace (Some (?pre @ ?r # ?post))
          ''Alice'' (Date 1733011200000) (Num 21)
        = classifyLine exampleParseDate 10 Replace (Some [?r])
          ''Alice'' (Date 1733011200000) (Num 21)"
    using classifyLine_first_match [of ?pre 10 ?r exampleParseDate ?post] h1 by blast
  moreover have "classifyLine exampleParseDate 21 Replace (Some ?rs)
          ''Alice'' (Date 1733011200000) (Num 21)
        = \<lparr>category = NewWork, prevAuthor = None, prevCommit = None, deltaDays = None\<rparr>"
    using classifyLine_first_match [of _ 21 _ exampleParseDate _ _ _ _ ?rs] h2 by blast
  ultimately show ?thesis
    using one by simp
qed

text \<open>
  Claim C7. For an add-only or delete-only hunk the result is New Work without evidence,
  whatever the blame ranges are.
\<close>

theorem classifyLine_not_replace:
  assumes "hType = AddOnly \<or> hType = DeleteOnly"
  shows "classifyLine pd n hType rs cur now m
         = \<lparr>category = NewWork, prevAuthor = None, prevCommit = None, deltaDays = None\<rparr>"
  using assms by (auto simp: classifyLine_def noEvidence_def)

text \<open>The theorem at line 12 with a range that covers it.\<close>

theorem classifyLine_not_replace_witness:
  "classifyLine exampleParseDate 12 AddOnly
     (Some [exampleRange 10 20 ''c1'' ''2024-11-10T00:00:00Z'' ''Alice''])
     ''Alice'' (Date 1733011200000) (Num 21)
   = \<lparr>category = NewWork, prevAuthor = None, prevCommit = None, deltaDays = None\<rparr>
   \<and> classifyLine exampleParseDate 12 DeleteOnly
     (Some [exampleRange 10 20 ''c1'' ''2024-11-10T00:00:00Z'' ''Alice''])
     ''Alice'' (Date 1733011200000) (Num 21)
   = \<lparr>category = NewWork, prevAuthor = None, prevCommit = None, deltaDays = None\<rparr>
   \<and> startingLine (exampleRange 10 20 ''c1'' ''2024-11-10T00:00:00Z'' ''Alice'') \<le> 12
   \<and> 12 \<le> endingLine (exampleRange 10 20 ''c1'' ''2024-11-10T00:00:00Z'' ''Alice'')"
  using classifyLine_not_replace [of AddOnly exampleParseDate 12
      "Some [exampleRange 10 20 ''c1'' ''2024-11-10T00:00:00Z'' ''Alice'']"
      "''Alice''" "Date 1733011200000" "Num 21"]
    classifyLine_not_replace [of DeleteOnly exampleParseDate 12
      "Some [exampleRange 10 20 ''c1'' ''2024-11-10T00:00:00Z'' ''Alice'']"
      "''Alice''" "Date 1733011200000" "Num 21"]
  by (simp add: exampleRange_def)

text \<open>
  Claim C4. A matched range whose \<open>committedDate\<close> is the string \<open>not-a-date\<close>: the
  \<open>Date\<close> object is invalid but not \<open>null\<close>, the delta is NaN, and the category is Help
  Others for another author and Rework for the same author, not New Work.
\<close>

theorem classifyLine_invalid_date_not_new_work:
  "classifyLine exampleParseDate 10 Replace
     (Some [exampleRange 1 20 ''invalid1'' ''not-a-date'' ''Bob''])
     ''Alice'' (Date 1733011200000) (Num 21)
   = \<lparr>category = HelpOthers, prevAuthor = Some ''Bob'', prevCommit = Some ''invalid1'',
       deltaDays = Some NaN\<rparr>
   \<and> classifyLine exampleParseDate 10 Replace
     (Some [exampleRange 1 20 ''invalid1'' ''not-a-date'' ''Bob''])
     ''Bob'' (Date 1733011200000) (Num 21)
   = \<lparr>category = Rework, prevAuthor = Some ''Bob'', prevCommit = Some ''invalid1'',
       deltaDays = Some NaN\<rparr>"
  by (simp add: classifyLine_def inRange_def exampleRange_def extractCommitInfo_def
      exampleParseDate_def calculateDeltaDays_def)

text \<open>
  Claim C8 as stated reports the commit identifier whenever it is present. An identifier
  that is the empty string is present and is reported as missing.
\<close>

theorem classifyLine_empty_oid_counterexample:
  "oid \<lparr>oid = Some [], committedDate = None, author = Some \<lparr>name = Some ''Bob''\<rparr>\<rparr> = Some []
   \<and> prevCommit (classifyLine exampleParseDate 1 Replace
        (Some [\<lparr>startingLine = 1, endingLine = 1,
                commit = Some \<lparr>oid = Some [], committedDate = None,
                               author = Some \<lparr>name = Some ''Bob''\<rparr>\<rparr>\<rparr>])
        ''Alice'' (Date 1733011200000) (Num 21)) = None"
  by (simp add: classifyLine_def inRange_def extractCommitInfo_def)

text \<open>
  Claim C8, amended. When the matched range of a replace hunk has no commit, or a commit
  whose \<open>committedDate\<close> is missing or empty, the category is New Work and the delta is
  missing; the previous author is the author name when present and non-empty, and the
  previous commit is the commit identifier when present and non-empty.
\<close>

theorem classifyLine_missing_date:
  assumes "find (\<lambda>r. startingLine r \<le> n \<and> n \<le> endingLine r) rs = Some r"
    and "case commit r of None \<Rightarrow> True
         | Some c \<Rightarrow> committedDate c = None \<or> committedDate c = Some []"
  shows "classifyLine pd n Replace (Some rs) cur now m
     = \<lparr>category = NewWork,
        prevAuthor =
          (case commit r of None \<Rightarrow> None
           | Some c \<Rightarrow>
               (case commit.author c of None \<Rightarrow> None
                | Some a \<Rightarrow>
                    (case name a of None \<Rightarrow> None
                     | Some s \<Rightarrow> if s = [] then None else Some s))),
        prevCommit =
          (case commit r of None \<Rightarrow> None
           | Some c \<Rightarrow>
               (case oid c of None \<Rightarrow> None
                | Some s \<Rightarrow> if s = [] then None else Some s)),
        deltaDays = None\<rparr>"
proof -
  have f: "find (inRange n) rs = Some r"
    using assms(1) by (simp add: inRange_eq)
  show ?thesis
    using assms(2)
    by (auto simp: classifyLine_def f extractCommitInfo_def split: option.splits)
qed

text \<open>The theorem at a range whose date is the empty string.\<close>

theorem classifyLine_missing_date_witness:
  "classifyLine exampleParseDate 10 Replace
     (Some [exampleRange 1 20 ''empty1'' [] ''Bob''])
     ''Alice'' (Date 1733011200000) (Num 21)
   = \<lparr>category = NewWork, prevAuthor = Some ''Bob'', prevCommit = Some ''empty1'',
       deltaDays = None\<rparr>"
proof -
  have f: "find (\<lambda>r. startingLine r \<le> 10 \<and> 10 \<le> endingLine r)
             [exampleRange 1 20 ''empty1'' [] ''Bob'']
           = Some (exampleRange 1 20 ''empty1'' [] ''Bob'')"
    by (simp add: exampleRange_def)
  have c: "case commit (exampleRange 1 20 ''empty1'' [] ''Bob'') of None \<Rightarrow> True
         | Some c \<Rightarrow> committedDate c = None \<or> committedDate c = Some []"
    by (simp add: exampleRange_def)
  show ?thesis
    using classifyLine_missing_date [OF f c, of exampleParseDate "''Alice''" "Date 1733011200000" "Num 21"]
    by (simp add: exampleRange_def)
qed

section \<open>Properties of the patch parser\<close>

lemma finalizeHunk_fst: "fst (finalizeHunk h out) = createEmptyHunk"
  by (simp add: finalizeHunk_def Let_def)

lemma finalizeHunk_snd:
  "snd (finalizeHunk h out) =
     out @ map (\<lambda>added. \<lparr>line = content added, number = lineNum added,
                  hunkType = determineHunkType
                     (filter (\<lambda>l. \<not> isBlankLine (content l)) (hunkRemoved h))
                     (filter (\<lambda>l. \<not> isBlankLine (content l)) (hunkAdded h)) (hunkAdded h),
                  removedLines =
                    (if determineHunkType
                         (filter (\<lambda>l. \<not> isBlankLine (content l)) (hunkRemoved h))
                         (filter (\<lambda>l. \<not> isBlankLine (content l)) (hunkAdded h)) (hunkAdded h) = Replace
                     then hunkRemoved h else [])\<rparr>)
              (hunkAdded h)"
  by (simp add: finalizeHunk_def Let_def)

lemma finalizeHunk_numbers:
  "map number (snd (finalizeHunk h out)) = map number out @ map lineNum (hunkAdded h)"
  by (simp add: finalizeHunk_snd comp_def)

lemma pendingNumbers_parseLine:
  "pendingNumbers (parseLine st l) =
     pendingNumbers st @ (if \<not> startsWith l ''@@'' \<and> startsWith l ''+'' \<and> \<not> startsWith l ''+++''
                          then [newLineNum st] else [])"
proof -
  obtain h out where fin: "finalizeHunk (currentHunk st) (addedLines st) = (h, out)"
    by (cases "finalizeHunk (currentHunk st) (addedLines st)")
  have h: "h = createEmptyHunk"
    using finalizeHunk_fst [of "currentHunk st" "addedLines st"] fin by simp
  have out: "map number out = pendingNumbers st"
    using finalizeHunk_numbers [of "currentHunk st" "addedLines st"] fin
    by (simp add: pendingNumbers_def)
  show ?thesis
    using h out
    by (auto simp: parseLine_def fin pendingNumbers_def createEmptyHunk_def Let_def
             split: option.splits)
qed

lemma newLineNum_parseLine:
  "newLineNum (parseLine st l) =
     (if startsWith l ''@@'' then (case matchHeader l of Some (m1, m2) \<Rightarrow> parseInt m2 | None \<Rightarrow> 0)
      else if startsWith l ''+'' \<and> \<not> startsWith l ''+++'' then newLineNum st + 1
      else if startsWith l ''-'' \<and> \<not> startsWith l ''---'' then newLineNum st
      else if \<not> startsWith l [CHR 0x5C] then newLineNum st + 1
      else newLineNum st)"
  by (auto simp: parseLine_def Let_def split: option.splits prod.splits)

lemma startsWith_Nil: "startsWith l [] = True"
  by (simp add: startsWith_def)

lemma startsWith_Cons: "startsWith l (c # p) = (\<exists>t. l = c # t \<and> startsWith t p)"
  by (cases l) (auto simp: startsWith_def)

lemma startsWith_at_not_plus: "startsWith l ''@@'' \<Longrightarrow> \<not> startsWith l ''+''"
  by (auto simp: startsWith_Cons)

lemma finish_parseLines_numbers:
  "map number (finish (parseLines st ls)) = pendingNumbers st @ parserPositions (newLineNum st) ls"
proof (induction ls arbitrary: st)
  case Nil
  show ?case
    by (simp add: parseLines_def finish_def finalizeHunk_numbers pendingNumbers_def)
next
  case (Cons l ls)
  have "map number (finish (parseLines st (l # ls)))
        = map number (finish (parseLines (parseLine st l) ls))"
    by (simp add: parseLines_def)
  also have "\<dots> = pendingNumbers (parseLine st l) @ parserPositions (newLineNum (parseLine st l)) ls"
    by (rule Cons.IH)
  also have "\<dots> = pendingNumbers st @ parserPositions (newLineNum st) (l # ls)"
    by (simp add: pendingNumbers_parseLine newLineNum_parseLine startsWith_at_not_plus)
  finally show ?case .
qed




lemma length_parserPositions:
  "length (parserPositions n ls) = length (filter (\<lambda>l. startsWith l ''+'' \<and> \<not> startsWith l ''+++'') ls)"
  by (induction n ls rule: parserPositions.induct) (auto simp: startsWith_at_not_plus)




text \<open>
  Claim C3. For a hunk buffer that is not empty, the finalization emits one record per raw
  added line and every one carries the type computed from the non-blank removed and added
  lines: add-only when only the added subset is non-empty, delete-only when only the
  removed subset is, replace when both are, and when both are empty add-only if the raw
  added buffer is non-empty and delete-only otherwise.
\<close>

theorem finalizeHunk_hunkType:
  assumes "hunkAdded h \<noteq> [] \<or> hunkRemoved h \<noteq> []"
  shows "let nonBlankRemoved = filter (\<lambda>l. \<not> isBlankLine (content l)) (hunkRemoved h);
             nonBlankAdded = filter (\<lambda>l. \<not> isBlankLine (content l)) (hunkAdded h);
             ht = determineHunkType nonBlankRemoved nonBlankAdded (hunkAdded h)
         in map hunkType (drop (length out) (snd (finalizeHunk h out)))
              = map (\<lambda>added. ht) (hunkAdded h)
          \<and> (nonBlankRemoved = [] \<and> nonBlankAdded \<noteq> [] \<longrightarrow> ht = AddOnly)
          \<and> (nonBlankRemoved \<noteq> [] \<and> nonBlankAdded = [] \<longrightarrow> ht = DeleteOnly)
          \<and> (nonBlankRemoved \<noteq> [] \<and> nonBlankAdded \<noteq> [] \<longrightarrow> ht = Replace)
          \<and> (nonBlankRemoved = [] \<and> nonBlankAdded = []
                \<longrightarrow> ht = (if hunkAdded h \<noteq> [] then AddOnly else DeleteOnly))"
proof -
  have emitted: "map hunkType (drop (length out) (snd (finalizeHunk h out)))
      = map (\<lambda>added. determineHunkType
                 (filter (\<lambda>l. \<not> isBlankLine (content l)) (hunkRemoved h))
                 (filter (\<lambda>l. \<not> isBlankLine (content l)) (hunkAdded h)) (hunkAdded h))
            (hunkAdded h)"
    by (simp add: finalizeHunk_snd comp_def)
  show ?thesis
    unfolding Let_def using emitted by (auto simp: determineHunkType_def)
qed

text \<open>
  The theorem at four hunks: code replaced by code and a blank line (replace, twice); two
  blank lines removed and code added (add-only although the raw removed buffer is not
  empty); code replaced by a blank line (delete-only); blank lines only (add-only).
\<close>

theorem finalizeHunk_hunkType_witness:
  "map hunkType (snd (finalizeHunk sampleReplaceHunk [])) = [Replace, Replace]
   \<and> hunkRemoved sampleHunk \<noteq> []
   \<and> map hunkType (snd (finalizeHunk sampleHunk [])) = [AddOnly]
   \<and> map hunkType (snd (finalizeHunk sampleDeleteHunk [])) = [DeleteOnly]
   \<and> map hunkType (snd (finalizeHunk sampleBlankHunk [])) = [AddOnly]"
proof -
  have r1: "filter (\<lambda>l. \<not> isBlankLine (content l)) (hunkRemoved sampleReplaceHunk) \<noteq> []"
    and a1: "filter (\<lambda>l. \<not> isBlankLine (content l)) (hunkAdded sampleReplaceHunk) \<noteq> []"
    and n1: "hunkAdded sampleReplaceHunk \<noteq> [] \<or> hunkRemoved sampleReplaceHunk \<noteq> []"
    and l1: "map (\<lambda>added. Replace) (hunkAdded sampleReplaceHunk) = [Replace, Replace]"
    by (simp_all add: sampleReplaceHunk_def isBlankLine_def isSpace_def)
  have r2: "filter (\<lambda>l. \<not> isBlankLine (content l)) (hunkRemoved sampleHunk) = []"
    and a2: "filter (\<lambda>l. \<not> isBlankLine (content l)) (hunkAdded sampleHunk) \<noteq> []"
    and n2: "hunkAdded sampleHunk \<noteq> [] \<or> hunkRemoved sampleHunk \<noteq> []"
    and l2: "map (\<lambda>added. AddOnly) (hunkAdded sampleHunk) = [AddOnly]"
    and raw: "hunkRemoved sampleHunk \<noteq> []"
    by (simp_all add: sampleHunk_def isBlankLine_def isSpace_def)
  have r3: "filter (\<lambda>l. \<not> isBlankLine (content l)) (hunkRemoved sampleDeleteHunk) \<noteq> []"
    and a3: "filter (\<lambda>l. \<not> isBlankLine (content l)) (hunkAdded sampleDeleteHunk) = []"
    and n3: "hunkAdded sampleDeleteHunk \<noteq> [] \<or> hunkRemoved sampleDeleteHunk \<noteq> []"
    and l3: "map (\<lambda>added. DeleteOnly) (hunkAdded sampleDeleteHunk) = [DeleteOnly]"
    by (simp_all add: sampleDeleteHunk_def isBlankLine_def isSpace_def)
  have r4: "filter (\<lambda>l. \<not> isBlankLine (content l)) (hunkRemoved sampleBlankHunk) = []"
    and a4: "filter (\<lambda>l. \<not> isBlankLine (content l)) (hunkAdded sampleBlankHunk) = []"
    and n4: "hunkAdded sampleBlankHunk \<noteq> [] \<or> hunkRemoved sampleBlankHunk \<noteq> []"
    and l4: "map (\<lambda>added. AddOnly) (hunkAdded sampleBlankHunk) = [AddOnly]"
    and e4: "hunkAdded sampleBlankHunk \<noteq> []"
    by (simp_all add: sampleBlankHunk_def isBlankLine_def isSpace_def)
  have "map hunkType (snd (finalizeHunk sampleReplaceHunk [])) = [Replace, Replace]"
    using finalizeHunk_hunkType [OF n1, of "[]"] r1 a1 l1 by (simp add: Let_def)
  moreover have "map hunkType (snd (finalizeHunk sampleHunk [])) = [AddOnly]"
    using finalizeHunk_hunkType [OF n2, of "[]"] r2 a2 l2 by (simp add: Let_def)
  moreover have "map hunkType (snd (finalizeHunk sampleDeleteHunk [])) = [DeleteOnly]"
    using finalizeHunk_hunkType [OF n3, of "[]"] r3 a3 l3 by (simp add: Let_def)
  moreover have "map hunkType (snd (finalizeHunk sampleBlankHunk [])) = [AddOnly]"
    using finalizeHunk_hunkType [OF n4, of "[]"] r4 a4 l4 e4 by (simp add: Let_def)
  ultimately show ?thesis
    using raw by blast
qed

text \<open>
  Claim C5. Finalization resets the buffer; an empty buffer leaves the output unchanged;
  otherwise the output grows by one record per raw added line, blank or not, in order,
  each with the content and number of its line, all with the same hunk type, and with the
  raw removed lines attached when that type is replace and the empty list otherwise.
\<close>

theorem finalizeHunk_output:
  "fst (finalizeHunk h out) = createEmptyHunk
   \<and> (hunkAdded h = [] \<and> hunkRemoved h = [] \<longrightarrow> snd (finalizeHunk h out) = out)
   \<and> (let ht = determineHunkType (filter (\<lambda>l. \<not> isBlankLine (content l)) (hunkRemoved h))
                   (filter (\<lambda>l. \<not> isBlankLine (content l)) (hunkAdded h)) (hunkAdded h)
       in snd (finalizeHunk h out) =
            out @ map (\<lambda>added. \<lparr>line = content added, number = lineNum added, hunkType = ht,
                         removedLines = (if ht = Replace then hunkRemoved h else [])\<rparr>)
                      (hunkAdded h))
   \<and> length (snd (finalizeHunk h out)) = length out + length (hunkAdded h)"
  by (simp add: finalizeHunk_fst finalizeHunk_snd Let_def)

text \<open>
  The theorem at the empty hunk, at a replace hunk with a blank added line, and at the hunk
  that removes blank lines only.
\<close>

theorem finalizeHunk_output_witness:
  "snd (finalizeHunk createEmptyHunk []) = []
   \<and> snd (finalizeHunk sampleReplaceHunk []) =
       [\<lparr>line = ''y'', number = 7, hunkType = Replace,
          removedLines = [\<lparr>content = ''x'', lineNum = 7\<rparr>]\<rparr>,
        \<lparr>line = [], number = 8, hunkType = Replace,
          removedLines = [\<lparr>content = ''x'', lineNum = 7\<rparr>]\<rparr>]
   \<and> snd (finalizeHunk sampleHunk []) =
       [\<lparr>line = ''  const newValue = 20;'', number = 22, hunkType = AddOnly, removedLines = []\<rparr>]"
proof -
  have e: "hunkAdded createEmptyHunk = [] \<and> hunkRemoved createEmptyHunk = []"
    by (simp add: createEmptyHunk_def)
  have t1: "determineHunkType
              (filter (\<lambda>l. \<not> isBlankLine (content l)) (hunkRemoved sampleReplaceHunk))
              (filter (\<lambda>l. \<not> isBlankLine (content l)) (hunkAdded sampleReplaceHunk))
              (hunkAdded sampleReplaceHunk) = Replace"
    by (simp add: sampleReplaceHunk_def isBlankLine_def isSpace_def determineHunkType_def)
  have t2: "determineHunkType
              (filter (\<lambda>l. \<not> isBlankLine (content l)) (hunkRemoved sampleHunk))
              (filter (\<lambda>l. \<not> isBlankLine (content l)) (hunkAdded sampleHunk))
              (hunkAdded sampleHunk) = AddOnly"
    by (simp add: sampleHunk_def isBlankLine_def isSpace_def determineHunkType_def)
  have "snd (finalizeHunk createEmptyHunk []) = []"
    using finalizeHunk_output [of createEmptyHunk "[]"] e by blast
  moreover have "snd (finalizeHunk sampleReplaceHunk []) =
       [\<lparr>line = ''y'', number = 7, hunkType = Replace,
          removedLines = [\<lparr>content = ''x'', lineNum = 7\<rparr>]\<rparr>,
        \<lparr>line = [], number = 8, hunkType = Replace,
          removedLines = [\<lparr>content = ''x'', lineNum = 7\<rparr>]\<rparr>]"
    using finalizeHunk_output [of sampleReplaceHunk "[]"]
    by (simp add: t1 Let_def) (simp add: sampleReplaceHunk_def)
  moreover have "snd (finalizeHunk sampleHunk []) =
       [\<lparr>line = ''  const newValue = 20;'', number = 22, hunkType = AddOnly, removedLines = []\<rparr>]"
    using finalizeHunk_output [of sampleHunk "[]"]
    by (simp add: t2 Let_def) (simp add: sampleHunk_def)
  ultimately show ?thesis by blast
qed

lemma length_finish_parseLines:
  "length (finish (parseLines st ls)) =
     length (addedLines st) + length (hunkAdded (currentHunk st))
     + length (filter (\<lambda>l. startsWith l ''+'' \<and> \<not> startsWith l ''+++'') ls)"
proof -
  have "length (finish (parseLines st ls)) = length (map number (finish (parseLines st ls)))"
    by simp
  also have "\<dots> = length (pendingNumbers st @ parserPositions (newLineNum st) ls)"
    by (simp only: finish_parseLines_numbers)
  finally show ?thesis
    by (simp add: pendingNumbers_def length_parserPositions)
qed

text \<open>
  Claim C9. On a line starting with \<open>@@\<close> both counters become the declared starts when the
  header pattern matches and zero when it does not; the loop goes on with the remaining
  lines, and every added line among them (and every one waiting in the buffer) still
  yields a record.
\<close>

theorem parseLine_hunk_header:
  assumes "startsWith l ''@@''"
  shows "(case matchHeader l of
            Some (m1, m2) \<Rightarrow> oldLineNum (parseLine st l) = parseInt m1
                           \<and> newLineNum (parseLine st l) = parseInt m2
          | None \<Rightarrow> oldLineNum (parseLine st l) = 0 \<and> newLineNum (parseLine st l) = 0)
     \<and> finish (parseLines st (l # rest)) = finish (parseLines (parseLine st l) rest)
     \<and> length (finish (parseLines st (l # rest))) =
         length (addedLines st) + length (hunkAdded (currentHunk st))
         + length (filter (\<lambda>l. startsWith l ''+'' \<and> \<not> startsWith l ''+++'') rest)"
proof -
  have c: "case matchHeader l of
            Some (m1, m2) \<Rightarrow> oldLineNum (parseLine st l) = parseInt m1
                           \<and> newLineNum (parseLine st l) = parseInt m2
          | None \<Rightarrow> oldLineNum (parseLine st l) = 0 \<and> newLineNum (parseLine st l) = 0"
    using assms by (simp add: parseLine_def split: option.splits prod.splits)
  have f: "finish (parseLines st (l # rest)) = finish (parseLines (parseLine st l) rest)"
    by (simp add: parseLines_def)
  have n: "length (finish (parseLines st (l # rest))) =
         length (addedLines st) + length (hunkAdded (currentHunk st))
         + length (filter (\<lambda>l. startsWith l ''+'' \<and> \<not> startsWith l ''+++'') rest)"
    using assms by (simp add: length_finish_parseLines startsWith_at_not_plus)
  show ?thesis
    using c f n by blast
qed

text \<open>
  The theorem at a well-formed header, at a malformed one that follows it, and at a
  malformed header followed by two added lines.
\<close>

theorem parseLine_hunk_header_witness:
  "oldLineNum (parseLine initialState ''@@ -10,3 +12,4 @@ f'') = 10
   \<and> newLineNum (parseLine initialState ''@@ -10,3 +12,4 @@ f'') = 12
   \<and> oldLineNum (parseLine (parseLine initialState ''@@ -10,3 +12,4 @@ f'') ''@@ malformed'') = 0
   \<and> newLineNum (parseLine (parseLine initialState ''@@ -10,3 +12,4 @@ f'') ''@@ malformed'') = 0
   \<and> length (finish (parseLines initialState [''@@ malformed'', ''+a'', '' b'', ''+c''])) = 2"
proof -
  have s1: "startsWith ''@@ -10,3 +12,4 @@ f'' ''@@''"
    by (simp add: startsWith_def)
  have s2: "startsWith ''@@ malformed'' ''@@''"
    by (simp add: startsWith_def)
  have m1: "matchHeader ''@@ -10,3 +12,4 @@ f'' = Some (''10'', ''12'')"
    by code_simp
  have m2: "matchHeader ''@@ malformed'' = None"
    by code_simp
  have p: "parseInt ''10'' = 10" "parseInt ''12'' = 12"
    by code_simp+
  have e: "length (addedLines initialState) + length (hunkAdded (currentHunk initialState))
         + length (filter (\<lambda>l. startsWith l ''+'' \<and> \<not> startsWith l ''+++'') [''+a'', '' b'', ''+c'']) = 2"
    by (simp add: initialState_def createEmptyHunk_def startsWith_def)
  have h1: "oldLineNum (parseLine initialState ''@@ -10,3 +12,4 @@ f'') = parseInt ''10''
          \<and> newLineNum (parseLine initialState ''@@ -10,3 +12,4 @@ f'') = parseInt ''12''"
    using parseLine_hunk_header [OF s1, of initialState "[]", THEN conjunct1]
    by (simp only: m1 option.case prod.case)
  have h2: "oldLineNum (parseLine (parseLine initialState ''@@ -10,3 +12,4 @@ f'') ''@@ malformed'') = 0
          \<and> newLineNum (parseLine (parseLine initialState ''@@ -10,3 +12,4 @@ f'') ''@@ malformed'') = 0"
    using parseLine_hunk_header [OF s2, of "parseLine initialState ''@@ -10,3 +12,4 @@ f''" "[]",
        THEN conjunct1]
    by (simp only: m2 option.case)
  have h3: "length (finish (parseLines initialState [''@@ malformed'', ''+a'', '' b'', ''+c''])) = 2"
    using parseLine_hunk_header [OF s2, of initialState "[''+a'', '' b'', ''+c'']",
        THEN conjunct2, THEN conjunct2]
    by (simp only: e)
  show ?thesis
    using h1 h2 h3 by (simp only: p)
qed

text \<open>
  Claim C10. A line starting with \<open>+++\<close> or \<open>---\<close> is treated exactly as the empty context
  line: a non-empty hunk buffer is finalized, nothing is put into the buffer, and both
  counters advance by one.
\<close>

theorem parseLine_file_header_prefix:
  assumes "startsWith l ''+++'' \<or> startsWith l ''---''"
  shows "parseLine st l = parseLine st []
     \<and> addedLines (parseLine st l) =
         (if hunkAdded (currentHunk st) \<noteq> [] \<or> hunkRemoved (currentHunk st) \<noteq> []
          then snd (finalizeHunk (currentHunk st) (addedLines st)) else addedLines st)
     \<and> currentHunk (parseLine st l) =
         (if hunkAdded (currentHunk st) \<noteq> [] \<or> hunkRemoved (currentHunk st) \<noteq> []
          then createEmptyHunk else currentHunk st)
     \<and> hunkAdded (currentHunk (parseLine st l)) = []
     \<and> hunkRemoved (currentHunk (parseLine st l)) = []
     \<and> newLineNum (parseLine st l) = newLineNum st + 1
     \<and> oldLineNum (parseLine st l) = oldLineNum st + 1"
proof -
  have k: "\<not> startsWith l ''@@'' \<and> \<not> (startsWith l ''+'' \<and> \<not> startsWith l ''+++'')
           \<and> \<not> (startsWith l ''-'' \<and> \<not> startsWith l ''---'') \<and> \<not> startsWith l [CHR 0x5C]"
    using assms by (auto simp: startsWith_Cons)
  have e: "\<not> startsWith [] ''@@'' \<and> \<not> startsWith [] ''+'' \<and> \<not> startsWith [] ''-''
           \<and> \<not> startsWith [] [CHR 0x5C]"
    by (simp add: startsWith_def)
  obtain h out where fin: "finalizeHunk (currentHunk st) (addedLines st) = (h, out)"
    by (cases "finalizeHunk (currentHunk st) (addedLines st)")
  have h: "h = createEmptyHunk"
    using finalizeHunk_fst [of "currentHunk st" "addedLines st"] fin by simp
  show ?thesis
    using k e h by (auto simp: parseLine_def fin Let_def createEmptyHunk_def)
qed

text \<open>
  The theorem at the added line \<open>++i;\<close>, written \<open>+++i;\<close> in the patch; a patch that
  replaces \<open>-j;\<close> by \<open>++i;\<close> yields no record at all.
\<close>

theorem parseLine_file_header_prefix_witness:
  "startsWith ''+++i;'' ''+++''
   \<and> addedLines (parseLine initialState ''+++i;'') = []
   \<and> hunkAdded (currentHunk (parseLine initialState ''+++i;'')) = []
   \<and> newLineNum (parseLine initialState ''+++i;'') = 1
   \<and> oldLineNum (parseLine initialState ''+++i;'') = 1
   \<and> parsePatch (''@@ -1,2 +1,2 @@'' @ [CHR 0x0A] @ ''--j;'' @ [CHR 0x0A] @ ''+++i;'') = []"
proof -
  have s: "startsWith ''+++i;'' ''+++''"
    by (simp add: startsWith_def)
  then have s': "startsWith ''+++i;'' ''+++'' \<or> startsWith ''+++i;'' ''---''"
    by blast
  have i: "hunkAdded (currentHunk initialState) = []" "hunkRemoved (currentHunk initialState) = []"
    "addedLines initialState = []" "newLineNum initialState = 0" "oldLineNum initialState = 0"
    by (simp_all add: initialState_def createEmptyHunk_def)
  have d: "parsePatch (''@@ -1,2 +1,2 @@'' @ [CHR 0x0A] @ ''--j;'' @ [CHR 0x0A] @ ''+++i;'') = []"
    by code_simp
  note t = parseLine_file_header_prefix [OF s', of initialState]
  have "addedLines (parseLine initialState ''+++i;'') = []"
    using t [THEN conjunct2, THEN conjunct1] by (simp add: i)
  moreover have "hunkAdded (currentHunk (parseLine initialState ''+++i;'')) = []"
    using t by blast
  moreover have "newLineNum (parseLine initialState ''+++i;'') = 1"
    using t [THEN conjunct2, THEN conjunct2, THEN conjunct2, THEN conjunct2, THEN conjunct2,
             THEN conjunct1]
    by (simp add: i)
  moreover have "oldLineNum (parseLine initialState ''+++i;'') = 1"
    using t [THEN conjunct2, THEN conjunct2, THEN conjunct2, THEN conjunct2, THEN conjunct2,
             THEN conjunct2]
    by (simp add: i)
  ultimately show ?thesis
    using s d by blast
qed

end
